theory Spec2Isabelle
  imports Main
begin

section \<open>The window of the text viewer (text-viewer-window.c)\<close>

text \<open>
  The file is a GTK controller: four callbacks wired to the toolkit. The callbacks are
  embedded as functions on an explicit state; the GLib and GTK calls they make are
  embedded after their documented contracts, under the names the source calls them by.
  A C string is a \<open>string\<close> (a list of bytes), a nullable pointer an \<open>option\<close>.
\<close>

subsection \<open>Bytes, UTF-8 and printf\<close>

text \<open>
  The two format strings of the source quote the path with the typographic quotation
  marks U+201C and U+201D, which are three bytes each in the UTF-8 source file.
\<close>

definition ldquo :: string where
  "ldquo = [CHR 0xE2, CHR 0x80, CHR 0x9C]"

definition rdquo :: string where
  "rdquo = [CHR 0xE2, CHR 0x80, CHR 0x9D]"

definition newline :: string where
  "newline = [CHR 0x0A]"

text \<open>\<open>%s\<close>: the GNU C library prints a null pointer as \<open>(null)\<close>.\<close>

definition printf_s :: "string option \<Rightarrow> string" where
  "printf_s arg = (case arg of None \<Rightarrow> ''(null)'' | Some s \<Rightarrow> s)"

text \<open>\<open>%d\<close>: the decimal digits of an int, after a minus sign when it is negative.\<close>

definition digit_char :: "nat \<Rightarrow> char" where
  "digit_char d = ''0123456789'' ! d"

function decimal :: "nat \<Rightarrow> string" where
  "decimal n = (if n < 10 then [digit_char n] else decimal (n div 10) @ [digit_char (n mod 10)])"
  by pat_completeness auto
termination
  by (relation "measure (\<lambda>n. n)") auto

definition printf_d :: "int \<Rightarrow> string" where
  "printf_d i = (if i < 0 then CHR ''-'' # decimal (nat (- i)) else decimal (nat i))"

text \<open>
  An \<open>int\<close> has 32 bits. \<open>to_int\<close> is the value an integer has once it is stored in
  an \<open>int\<close>: the one in the range from \<open>-2^31\<close> to \<open>2^31 - 1\<close> that differs from it
  by a multiple of \<open>2^32\<close>. That is how a \<open>gsize\<close> or \<open>size_t\<close> is narrowed, and
  how the sum of two ints comes out in the compiled code when it leaves the range
  (the C standard leaves that overflow undefined). \<open>strlen\<close> counts the bytes before
  the first nul; a buffer is followed by one.
\<close>

definition to_int :: "int \<Rightarrow> int" where
  "to_int k = (k + 2147483648) mod 4294967296 - 2147483648"

definition int_add :: "int \<Rightarrow> int \<Rightarrow> int" where
  "int_add a b = to_int (a + b)"

definition strlen :: "string \<Rightarrow> nat" where
  "strlen bytes = length (takeWhile (\<lambda>c. c \<noteq> CHR 0x00) bytes)"

text \<open>
  UTF-8 (RFC 3629). A continuation byte is \<open>10xxxxxx\<close>; \<open>payload\<close> is its six
  low bits. \<open>utf8_decode\<close> gives the code points of a byte string, and \<open>None\<close> for
  a string that is not well-formed: a stray or missing continuation byte, an overlong
  form, a surrogate (U+D800 to U+DFFF) or a value above U+10FFFF.
\<close>

definition continuation :: "char \<Rightarrow> bool" where
  "continuation c = (128 \<le> (of_char c :: nat) \<and> (of_char c :: nat) < 192)"

definition payload :: "char \<Rightarrow> nat" where
  "payload c = of_char c - 128"

fun utf8_decode :: "string \<Rightarrow> nat list option" where
  "utf8_decode [] = Some []"
| "utf8_decode (b # bs) =
     (let n = of_char b in
      if n < 128 then map_option (Cons n) (utf8_decode bs)
      else if n < 192 then None
      else if n < 224 then
        (case bs of
           c1 # r \<Rightarrow>
             (let v = (n - 192) * 64 + payload c1 in
              if continuation c1 \<and> 128 \<le> v
              then map_option (Cons v) (utf8_decode r) else None)
         | _ \<Rightarrow> None)
      else if n < 240 then
        (case bs of
           c1 # c2 # r \<Rightarrow>
             (let v = (n - 224) * 4096 + payload c1 * 64 + payload c2 in
              if continuation c1 \<and> continuation c2 \<and> 2048 \<le> v
                 \<and> \<not> (55296 \<le> v \<and> v < 57344)
              then map_option (Cons v) (utf8_decode r) else None)
         | _ \<Rightarrow> None)
      else if n < 248 then
        (case bs of
           c1 # c2 # c3 # r \<Rightarrow>
             (let v = (n - 240) * 262144 + payload c1 * 4096 + payload c2 * 64 + payload c3 in
              if continuation c1 \<and> continuation c2 \<and> continuation c3
                 \<and> 65536 \<le> v \<and> v < 1114112
              then map_option (Cons v) (utf8_decode r) else None)
         | _ \<Rightarrow> None)
      else None)"

definition valid_utf8 :: "string \<Rightarrow> bool" where
  "valid_utf8 bytes = (utf8_decode bytes \<noteq> None)"



text \<open>
  \<open>g_utf8_validate (str, max_len, NULL)\<close> with \<open>max_len \<ge> 0\<close>: GLib scans the
  first \<open>max_len\<close> bytes and answers whether the scan reached their end. The scan
  stops at a byte that starts no well-formed sequence, and at a nul byte: "returns
  FALSE if max_len is positive and any of the max_len bytes are nul" (GLib reference).
  \<open>UNICODE_VALID\<close> is GLib's macro. A null \<open>str\<close> is read as soon as there is a
  byte to scan. A buffer is followed by a nul byte that its length does not count, so a
  scan asked to go beyond the buffer stops there.
\<close>

datatype fault = NullPointerRead

definition UNICODE_VALID :: "nat \<Rightarrow> bool" where
  "UNICODE_VALID c = (c < 1114112 \<and> \<not> (55296 \<le> c \<and> c < 57344))"

fun fast_validate_len :: "string \<Rightarrow> bool" where
  "fast_validate_len [] = True"
| "fast_validate_len (b # bs) =
     (let n = of_char b :: nat in
      if n = 0 then False
      else if n < 128 then fast_validate_len bs
      else if 192 \<le> n \<and> n < 224 then
        (case bs of
           c1 # r \<Rightarrow> 194 \<le> n \<and> continuation c1 \<and> fast_validate_len r
         | _ \<Rightarrow> False)
      else if 224 \<le> n \<and> n < 240 then
        (case bs of
           c1 # c2 # r \<Rightarrow>
             (let val = (n - 224) * 4096 + payload c1 * 64 + payload c2 in
              continuation c1 \<and> continuation c2 \<and> 2048 \<le> val \<and> UNICODE_VALID val
              \<and> fast_validate_len r)
         | _ \<Rightarrow> False)
      else if 240 \<le> n \<and> n < 248 then
        (case bs of
           c1 # c2 # c3 # r \<Rightarrow>
             (let val = (n - 240) * 262144 + payload c1 * 4096 + payload c2 * 64 + payload c3 in
              continuation c1 \<and> continuation c2 \<and> continuation c3
              \<and> 65536 \<le> val \<and> UNICODE_VALID val \<and> fast_validate_len r)
         | _ \<Rightarrow> False)
      else False)"

definition g_utf8_validate :: "string option \<Rightarrow> nat \<Rightarrow> fault + bool" where
  "g_utf8_validate str max_len =
     (case str of
        None \<Rightarrow> if max_len = 0 then Inr True else Inl NullPointerRead
      | Some bytes \<Rightarrow> Inr (max_len \<le> length bytes \<and> fast_validate_len (take max_len bytes)))"

subsection \<open>Files and asynchronous results\<close>

text \<open>
  A \<open>GFile\<close> is a reference to a file. What the source asks about it is recorded
  with it: its local path (\<open>g_file_peek_path\<close>, null for a file without one), its
  base name, and the outcome of the metadata query made by \<open>g_file_query_info\<close>
  (null when the query fails, else the attributes found, by name).
\<close>

type_synonym GFileInfo = "string \<rightharpoonup> string"

record GFile =
  local_path :: "string option"
  base_name :: "string option"
  file_info :: "GFileInfo option"

record GError =
  error_domain :: nat
  error_code :: int
  message :: string

text \<open>The outcome of the asynchronous read: the error, or the bytes of the file.\<close>

type_synonym GAsyncResult = "GError + string"

definition g_file_peek_path :: "GFile \<Rightarrow> string option" where
  "g_file_peek_path file = local_path file"

definition g_file_get_basename :: "GFile \<Rightarrow> string option" where
  "g_file_get_basename file = base_name file"

definition g_file_query_info :: "GFile \<Rightarrow> string \<Rightarrow> GFileInfo option" where
  "g_file_query_info file attributes = file_info file"

definition g_file_info_get_attribute_string :: "GFileInfo \<Rightarrow> string \<Rightarrow> string option" where
  "g_file_info_get_attribute_string info attribute = info attribute"

definition g_strdup :: "string option \<Rightarrow> string option" where
  "g_strdup str = str"

text \<open>
  \<open>g_file_load_contents_finish (file, result, &contents, &length, NULL, &error)\<close>:
  on success \<open>contents\<close> is the buffer read and \<open>length\<close> its size; on failure
  \<open>error\<close> is set, \<open>length\<close> is 0 and \<open>contents\<close> keeps the null it was
  initialised with. The triple is \<open>(contents, length, error)\<close>. The \<open>gsize\<close>
  length is a \<open>nat\<close>. The \<open>gssize\<close> parameter of \<open>g_utf8_validate\<close> has 64 bits
  and holds the length of every buffer; the \<open>int\<close> parameter of
  \<open>gtk_text_buffer_set_text\<close> does not, and the conversion is embedded.
\<close>

definition g_file_load_contents_finish ::
  "GFile \<Rightarrow> GAsyncResult \<Rightarrow> string option \<times> nat \<times> GError option" where
  "g_file_load_contents_finish file result =
     (case result of
        Inl e \<Rightarrow> (None, 0, Some e)
      | Inr bytes \<Rightarrow> (Some bytes, length bytes, None))"

subsection \<open>The window and the process\<close>

text \<open>
  \<open>struct _TextViewerWindow\<close>: of the four template widgets the code reads or
  writes two, the text view (through its buffer) and the cursor label; the title
  belongs to the parent instance. A \<open>GtkTextBuffer\<close> holds the text as code points
  and the offset of the cursor in characters. The process adds what the callbacks
  touch outside the window: the standard error stream (one entry for each
  \<open>g_printerr\<close>, whose bytes reach the stream as they are in a UTF-8 locale) and
  the reads started and not yet completed.
\<close>

record GtkTextBuffer =
  chars :: "nat list"
  cursor_position :: int

record TextViewerWindow =
  title :: "string option"
  main_text_view :: GtkTextBuffer
  cursor_pos :: string

record process =
  window :: TextViewerWindow
  stderr :: "string list"
  loading :: "GFile list"

definition g_printerr :: "string \<Rightarrow> process \<Rightarrow> process" where
  "g_printerr line p = p\<lparr>stderr := stderr p @ [line]\<rparr>"

definition gtk_window_set_title :: "string option \<Rightarrow> process \<Rightarrow> process" where
  "gtk_window_set_title t p = p\<lparr>window := (window p)\<lparr>title := t\<rparr>\<rparr>"

definition gtk_label_set_text :: "string \<Rightarrow> process \<Rightarrow> process" where
  "gtk_label_set_text str p = p\<lparr>window := (window p)\<lparr>cursor_pos := str\<rparr>\<rparr>"

definition gtk_text_view_get_buffer :: "process \<Rightarrow> GtkTextBuffer" where
  "gtk_text_view_get_buffer p = main_text_view (window p)"

definition put_buffer :: "GtkTextBuffer \<Rightarrow> process \<Rightarrow> process" where
  "put_buffer b p = p\<lparr>window := (window p)\<lparr>main_text_view := b\<rparr>\<rparr>"

subsection \<open>Text iterators\<close>

text \<open>
  A \<open>GtkTextIter\<close> is a position in a buffer. GTK ends a line after a newline, a
  carriage return, a carriage return followed by a newline, or the paragraph separator
  U+2029. \<open>seek\<close> walks to an offset and counts the lines ended on the way and the
  characters since the last one.
\<close>

record GtkTextIter =
  iter_chars :: "nat list"
  iter_offset :: nat

definition ends_line :: "nat \<Rightarrow> nat list \<Rightarrow> bool" where
  "ends_line c rest =
     (c = 10 \<or> c = 8233 \<or> (c = 13 \<and> (case rest of [] \<Rightarrow> True | d # _ \<Rightarrow> d \<noteq> 10)))"

fun seek :: "nat list \<Rightarrow> nat \<Rightarrow> nat \<times> nat \<Rightarrow> nat \<times> nat" where
  "seek cs 0 (line, col) = (line, col)"
| "seek [] (Suc n) (line, col) = (line, col)"
| "seek (c # cs) (Suc n) (line, col) =
     (if ends_line c cs then seek cs n (line + 1, 0) else seek cs n (line, col + 1))"

definition gtk_text_buffer_get_iter_at_offset :: "GtkTextBuffer \<Rightarrow> int \<Rightarrow> GtkTextIter" where
  "gtk_text_buffer_get_iter_at_offset buffer char_offset =
     \<lparr>iter_chars = chars buffer,
      iter_offset =
        (if char_offset < 0 \<or> int (length (chars buffer)) < char_offset
         then length (chars buffer) else nat char_offset)\<rparr>"

definition gtk_text_buffer_get_start_iter :: "GtkTextBuffer \<Rightarrow> GtkTextIter" where
  "gtk_text_buffer_get_start_iter buffer = \<lparr>iter_chars = chars buffer, iter_offset = 0\<rparr>"

definition gtk_text_iter_get_line :: "GtkTextIter \<Rightarrow> int" where
  "gtk_text_iter_get_line iter = int (fst (seek (iter_chars iter) (iter_offset iter) (0, 0)))"

definition gtk_text_iter_get_line_offset :: "GtkTextIter \<Rightarrow> int" where
  "gtk_text_iter_get_line_offset iter =
     int (snd (seek (iter_chars iter) (iter_offset iter) (0, 0)))"

subsection \<open>The callbacks\<close>

text \<open>
  \<open>text_view_window__update_cursor_postion\<close> (lines 120 to 138): the handler of
  \<open>notify::cursor-position\<close>. The line and the column that the iterator gives
  are ints, and so are the two sums in lines 135 and 136.
\<close>

definition text_view_window__update_cursor_postion :: "process \<Rightarrow> process" where
  "text_view_window__update_cursor_postion self =
     (let buffer = gtk_text_view_get_buffer self;
          pos = cursor_position buffer;
          iter = gtk_text_buffer_get_iter_at_offset buffer pos;
          cursor_str =
            ''Ln '' @ printf_d (int_add (gtk_text_iter_get_line iter) 1) @
            '', Col '' @ printf_d (int_add (gtk_text_iter_get_line_offset iter) 1)
      in gtk_label_set_text cursor_str self)"

text \<open>
  \<open>text_viewer_window_init\<close> connects that handler to the buffer's
  \<open>notify::cursor-position\<close>, so the buffer calls it each time it sets the cursor:
  \<open>gtk_text_buffer_set_text\<close> empties the buffer and inserts the text (the cursor
  follows the insertion to its end), \<open>gtk_text_buffer_place_cursor\<close> moves the cursor
  to an iterator. \<open>gtk_text_buffer_set_text (buffer, text, len)\<close> takes the length
  as an int: it refuses a null text, replaces a negative \<open>len\<close> by \<open>strlen (text)\<close>,
  stored in the same int, and inserts only when the length is positive then; the
  insertion is refused for bytes that \<open>g_utf8_validate\<close> does not accept.
\<close>

definition notify_cursor_position :: "process \<Rightarrow> process" where
  "notify_cursor_position p = text_view_window__update_cursor_postion p"

definition gtk_text_buffer_set_text :: "string option \<Rightarrow> int \<Rightarrow> process \<Rightarrow> process" where
  "gtk_text_buffer_set_text txt len p =
     (case txt of
        None \<Rightarrow> p
      | Some bytes \<Rightarrow>
          (let n = (if len < 0 then to_int (int (strlen bytes)) else len);
               emptied = notify_cursor_position (put_buffer \<lparr>chars = [], cursor_position = 0\<rparr> p)
           in if 0 < n \<and> g_utf8_validate (Some bytes) (nat n) = Inr True
              then (case utf8_decode (take (nat n) bytes) of
                      None \<Rightarrow> emptied
                    | Some cs \<Rightarrow>
                        notify_cursor_position
                          (put_buffer \<lparr>chars = cs, cursor_position = int (length cs)\<rparr> emptied))
              else emptied))"

definition gtk_text_buffer_place_cursor :: "GtkTextIter \<Rightarrow> process \<Rightarrow> process" where
  "gtk_text_buffer_place_cursor iter p =
     notify_cursor_position
       (put_buffer ((gtk_text_view_get_buffer p)\<lparr>cursor_position := int (iter_offset iter)\<rparr>) p)"

text \<open>Lines 53 to 61 of \<open>open_file_complete\<close>: the display name.\<close>

definition display_name :: "GFile \<Rightarrow> string option" where
  "display_name file =
     (case g_file_query_info file ''standard::display-name'' of
        Some info \<Rightarrow> g_strdup (g_file_info_get_attribute_string info ''standard::display-name'')
      | None \<Rightarrow> g_file_get_basename file)"

text \<open>
  \<open>open_file_complete\<close> (lines 39 to 91), the callback of the asynchronous read.
  \<open>after_load_contents_finish\<close> is its body from line 53 on, as a function of the
  three variables that the call of \<open>g_file_load_contents_finish\<close> in line 51 has set.
  Line 82 passes the \<open>gsize\<close> length where an \<open>int\<close> is expected.
\<close>

definition after_load_contents_finish ::
  "string option \<times> nat \<times> GError option \<Rightarrow> GFile \<Rightarrow> process \<Rightarrow> fault + process" where
  "after_load_contents_finish vars file self =
     (case vars of
        (contents, len, error) \<Rightarrow>
          (let name = display_name file in
           case error of
             Some e \<Rightarrow>
               Inr (g_printerr
                      (''Unable to open '' @ ldquo @ printf_s (g_file_peek_path file) @ rdquo
                         @ '': '' @ printf_s (Some (message e)) @ newline) self)
           | None \<Rightarrow>
               (case g_utf8_validate contents len of
                  Inl f \<Rightarrow> Inl f
                | Inr False \<Rightarrow>
                    Inr (g_printerr
                           (''Unable to load the contents of '' @ ldquo
                              @ printf_s (g_file_peek_path file) @ rdquo
                              @ '': the file is not encoded with UTF-8'' @ newline) self)
                | Inr True \<Rightarrow>
                    (let s1 = gtk_text_buffer_set_text contents (to_int (int len)) self;
                         start = gtk_text_buffer_get_start_iter (gtk_text_view_get_buffer s1);
                         s2 = gtk_text_buffer_place_cursor start s1
                     in Inr (gtk_window_set_title name s2)))))"

definition open_file_complete :: "GFile \<Rightarrow> GAsyncResult \<Rightarrow> process \<Rightarrow> fault + process" where
  "open_file_complete file result self =
     after_load_contents_finish (g_file_load_contents_finish file result) file self"

text \<open>
  \<open>open_file\<close> (lines 93 to 96) starts the read; \<open>on_open_response\<close> (lines 98 to
  109) is the callback of the file dialog, whose result is the file chosen, or null
  when the dialog was cancelled. \<open>text_viewer_window__open_file_dialog\<close> (lines 111
  to 118) only shows the dialog and names \<open>on_open_response\<close> as its callback.
\<close>

definition g_file_load_contents_async :: "GFile \<Rightarrow> process \<Rightarrow> process" where
  "g_file_load_contents_async file p = p\<lparr>loading := loading p @ [file]\<rparr>"

definition open_file :: "process \<Rightarrow> GFile \<Rightarrow> process" where
  "open_file self file = g_file_load_contents_async file self"

definition gtk_file_dialog_open_finish :: "GFile option \<Rightarrow> GFile option" where
  "gtk_file_dialog_open_finish result = result"

definition on_open_response :: "GFile option \<Rightarrow> process \<Rightarrow> process" where
  "on_open_response result self =
     (case gtk_file_dialog_open_finish result of
        Some file \<Rightarrow> open_file self file
      | None \<Rightarrow> self)"

text \<open>
  The main loop completes a read that is in flight by calling the callback given to
  \<open>g_file_load_contents_async\<close>. \<open>open_and_select\<close> is one whole load: the dialog
  answers with a file, and the read started for it completes with \<open>result\<close>.
\<close>

definition load_contents_ready :: "GFile \<Rightarrow> GAsyncResult \<Rightarrow> process \<Rightarrow> fault + process" where
  "load_contents_ready file result p =
     open_file_complete file result (p\<lparr>loading := remove1 file (loading p)\<rparr>)"

definition open_and_select :: "GFile \<Rightarrow> GAsyncResult \<Rightarrow> process \<Rightarrow> fault + process" where
  "open_and_select file result p = load_contents_ready file result (on_open_response (Some file) p)"

subsection \<open>The vocabulary of the specification\<close>

text \<open>
  The specification speaks of the 0-based line number and column of a cursor offset.
  A line ends just after each of its delimiters; \<open>line_ends\<close> lists those offsets.
  The line number of an offset is the number of line ends up to it, its column the
  distance from the last of them (from the start of the text when there is none).
\<close>

definition line_ends :: "nat list \<Rightarrow> nat list" where
  "line_ends cs = map Suc (filter (\<lambda>i. ends_line (cs ! i) (drop (Suc i) cs)) [0..<length cs])"

definition line_number :: "nat list \<Rightarrow> nat \<Rightarrow> nat" where
  "line_number cs off = length (filter (\<lambda>e. e \<le> off) (line_ends cs))"

definition line_start :: "nat list \<Rightarrow> nat \<Rightarrow> nat" where
  "line_start cs off =
     (let before = filter (\<lambda>e. e \<le> off) (line_ends cs)
      in if before = [] then 0 else last before)"

definition column :: "nat list \<Rightarrow> nat \<Rightarrow> nat" where
  "column cs off = off - line_start cs off"

text \<open>
  The two diagnostic lines as the specification writes them, with the ASCII quotation
  mark U+0022 around the path.
\<close>

definition dquote :: string where
  "dquote = [CHR 0x22]"

definition spec_open_line :: "string \<Rightarrow> string \<Rightarrow> string" where
  "spec_open_line path msg = ''Unable to open '' @ dquote @ path @ dquote @ '': '' @ msg"

definition spec_encoding_line :: "string \<Rightarrow> string" where
  "spec_encoding_line path =
     ''Unable to load the contents of '' @ dquote @ path @ dquote
       @ '': the file is not encoded with UTF-8''"

subsection \<open>Sample inputs\<close>

definition notes_txt :: GFile where
  "notes_txt =
     \<lparr>local_path = Some ''/tmp/notes.txt'', base_name = Some ''notes.txt'',
      file_info = Some [''standard::display-name'' \<mapsto> ''Notes'']\<rparr>"

definition remote_bin :: GFile where
  "remote_bin = \<lparr>local_path = Some ''/mnt/r.bin'', base_name = Some ''r.bin'', file_info = None\<rparr>"

definition fresh :: process where
  "fresh =
     \<lparr>window = \<lparr>title = None, main_text_view = \<lparr>chars = [], cursor_position = 0\<rparr>,
                cursor_pos = []\<rparr>,
      stderr = [], loading = []\<rparr>"

definition not_found :: GError where
  "not_found = \<lparr>error_domain = 1, error_code = 1, message = ''No such file or directory''\<rparr>"

definition nul_bytes :: string where
  "nul_bytes = [CHR ''a'', CHR 0x00, CHR ''b'']"

definition showing_x :: process where
  "showing_x =
     \<lparr>window = \<lparr>title = Some ''Notes'', main_text_view = \<lparr>chars = [120], cursor_position = 0\<rparr>,
                cursor_pos = ''Ln 1, Col 1''\<rparr>,
      stderr = [], loading = []\<rparr>"

definition two_lines :: process where
  "two_lines =
     \<lparr>window = \<lparr>title = Some ''Notes'',
                main_text_view = \<lparr>chars = [97, 98, 13, 10, 99, 100], cursor_position = 5\<rparr>,
                cursor_pos = ''Ln 1, Col 1''\<rparr>,
      stderr = [], loading = []\<rparr>"

text \<open>Two large files of the letter \<open>a\<close>: \<open>2^31\<close> bytes, and one byte less.\<close>

definition file_of_2G :: string where
  "file_of_2G = replicate 2147483648 (CHR ''a'')"



section \<open>Properties\<close>

declare decimal.simps [simp del]

subsection \<open>UTF-8: what GLib validates, and the round trip\<close>

lemma of_char_eq_0_iff: "(of_char c :: nat) = 0 \<longleftrightarrow> c = CHR 0x00"
proof
  assume "(of_char c :: nat) = 0"
  then have "(of_char c :: nat) = of_char (CHR 0x00)" by simp
  then show "c = CHR 0x00" by (simp only: of_char_eq_iff)
qed simp

lemma not_continuation_nul: "\<not> continuation (CHR 0x00)"
  by (simp add: continuation_def)

lemma continuation_nonzero: "continuation c \<Longrightarrow> CHR 0x00 \<noteq> c"
  by (auto simp: continuation_def)

lemma payload_lt: "continuation c \<Longrightarrow> payload c < 64"
  by (auto simp: continuation_def payload_def)

lemma two_byte_min: "p < 64 \<Longrightarrow> 192 \<le> n \<Longrightarrow> (128 \<le> (n - 192) * 64 + p) = (194 \<le> (n::nat))"
  by arith

lemma three_byte_max:
  "continuation c1 \<Longrightarrow> continuation c2 \<Longrightarrow> n < 240 \<Longrightarrow>
   (n - 224) * 4096 + payload c1 * 64 + payload c2 < 1114112"
  using payload_lt [of c1] payload_lt [of c2] by simp

lemma fast_validate_len_iff:
  "fast_validate_len bs \<longleftrightarrow> valid_utf8 bs \<and> CHR 0x00 \<notin> set bs"
proof (induction bs rule: length_induct)
  case (1 bs)
  then have IH: "\<And>ys. length ys < length bs \<Longrightarrow>
      fast_validate_len ys = (utf8_decode ys \<noteq> None \<and> CHR 0x00 \<notin> set ys)"
    by (simp add: valid_utf8_def)
  show ?case
  proof (cases bs)
    case Nil
    then show ?thesis by (simp add: valid_utf8_def)
  next
    case (Cons b r0)
    note IH0 = IH [of r0]
    show ?thesis
    proof (cases "(of_char b :: nat) < 192")
      case True
      with Cons IH0 show ?thesis
        by (auto simp add: valid_utf8_def Let_def of_char_eq_0_iff)
    next
      case False
      then have nz: "CHR 0x00 \<noteq> b" by auto
      show ?thesis
      proof (cases r0)
        case Nil
        with False Cons show ?thesis by (auto simp add: valid_utf8_def Let_def)
      next
        case C1: (Cons c1 r1)
        note IH1 = IH [of r1]
        show ?thesis
        proof (cases "(of_char b :: nat) < 224")
          case True
          with False Cons C1 IH1 nz show ?thesis
            by (cases "continuation c1")
              (auto simp add: valid_utf8_def Let_def two_byte_min payload_lt
                dest: continuation_nonzero)
        next
          case F2: False
          show ?thesis
          proof (cases r1)
            case Nil
            with False F2 Cons C1 show ?thesis by (auto simp add: valid_utf8_def Let_def)
          next
            case C2: (Cons c2 r2)
            note IH2 = IH [of r2]
            show ?thesis
            proof (cases "(of_char b :: nat) < 240")
              case True
              with False F2 Cons C1 C2 IH2 nz show ?thesis
                by (cases "continuation c1 \<and> continuation c2")
                  (auto simp add: valid_utf8_def Let_def UNICODE_VALID_def
                    three_byte_max dest: continuation_nonzero)
            next
              case F3: False
              show ?thesis
              proof (cases r2)
                case Nil
                with False F2 F3 Cons C1 C2 show ?thesis
                  by (auto simp add: valid_utf8_def Let_def)
              next
                case C3: (Cons c3 r3)
                note IH3 = IH [of r3]
                from False F2 F3 Cons C1 C2 C3 IH3 nz show ?thesis
                  by (cases "continuation c1 \<and> continuation c2 \<and> continuation c3")
                    (auto simp add: valid_utf8_def Let_def UNICODE_VALID_def
                      dest: continuation_nonzero)
              qed
            qed
          qed
        qed
      qed
    qed
  qed
qed

















subsection \<open>Lines and columns\<close>

lemma upt_0_Suc: "[0..<Suc n] = 0 # map Suc [0..<n]"
  by (simp only: upt_conv_Cons [of 0 "Suc n"] map_Suc_upt)

lemma line_ends_Nil: "line_ends [] = []"
  by (simp add: line_ends_def)

lemma line_ends_Cons:
  "line_ends (c # cs) = (if ends_line c cs then [1] else []) @ map Suc (line_ends cs)"
proof -
  have "[0..<length (c # cs)] = 0 # map Suc [0..<length cs]"
    using upt_0_Suc [of "length cs"] by (simp del: upt_Suc)
  then show ?thesis
    by (simp add: line_ends_def filter_map comp_def)
qed

lemma filter_le_map_Suc:
  "filter (\<lambda>e. e \<le> Suc m) (map Suc es) = map Suc (filter (\<lambda>e. e \<le> m) es)"
  by (simp add: filter_map comp_def)

lemma filter_le_0_line_ends: "filter (\<lambda>e. e \<le> 0) (line_ends cs) = []"
  by (simp add: line_ends_def filter_map comp_def)

lemma seek_line_ends:
  "n \<le> length cs \<Longrightarrow>
   seek cs n (l, c) =
     (l + length (filter (\<lambda>e. e \<le> n) (line_ends cs)),
      if filter (\<lambda>e. e \<le> n) (line_ends cs) = [] then c + n
      else n - last (filter (\<lambda>e. e \<le> n) (line_ends cs)))"
proof (induction cs arbitrary: n l c)
  case Nil
  then show ?case by (simp add: line_ends_Nil)
next
  case (Cons x xs)
  show ?case
  proof (cases n)
    case 0
    with filter_le_0_line_ends [of "x # xs"] show ?thesis by simp
  next
    case (Suc m)
    with Cons.prems have m: "m \<le> length xs" by simp
    show ?thesis
    proof (cases "ends_line x xs")
      case True
      with Suc Cons.IH [OF m, of "l + 1" 0] show ?thesis
        by (simp add: line_ends_Cons filter_le_map_Suc last_map)
    next
      case False
      with Suc Cons.IH [OF m, of l "c + 1"] show ?thesis
        by (simp add: line_ends_Cons filter_le_map_Suc last_map)
    qed
  qed
qed

lemma line_start_le: "line_start cs off \<le> off"
proof (cases "filter (\<lambda>e. e \<le> off) (line_ends cs) = []")
  case True
  then show ?thesis by (simp add: line_start_def)
next
  case False
  then have "last (filter (\<lambda>e. e \<le> off) (line_ends cs)) \<in> set (filter (\<lambda>e. e \<le> off) (line_ends cs))"
    by (rule last_in_set)
  with False show ?thesis by (simp add: line_start_def)
qed

lemma line_start_plus_column: "line_start cs off + column cs off = off"
  using line_start_le [of cs off] by (simp add: column_def)

lemma digit_char_value: "d < 10 \<Longrightarrow> (of_char (digit_char d) :: nat) = 48 + d"
proof -
  assume "d < 10"
  then have "d = 0 \<or> d = 1 \<or> d = 2 \<or> d = 3 \<or> d = 4 \<or> d = 5 \<or> d = 6 \<or> d = 7 \<or> d = 8 \<or> d = 9"
    by arith
  then show ?thesis by (auto simp add: digit_char_def)
qed

lemma decimal_value:
  "foldl (\<lambda>a d. 10 * a + (of_char d - 48)) 0 (decimal n) = n"
proof (induction n rule: decimal.induct)
  case (1 n)
  show ?case
  proof (cases "n < 10")
    case True
    then show ?thesis by (simp add: decimal.simps [of n] digit_char_value)
  next
    case False
    then have "foldl (\<lambda>a d. 10 * a + (of_char d - 48)) 0 (decimal (n div 10)) = n div 10"
      by (rule "1.IH")
    with False show ?thesis
      by (simp add: decimal.simps [of n] digit_char_value)
  qed
qed

lemma get_line_spec:
  "n \<le> length cs \<Longrightarrow>
   gtk_text_iter_get_line \<lparr>iter_chars = cs, iter_offset = n\<rparr> = int (line_number cs n)"
  by (simp add: gtk_text_iter_get_line_def seek_line_ends line_number_def)

lemma get_line_offset_spec:
  "n \<le> length cs \<Longrightarrow>
   gtk_text_iter_get_line_offset \<lparr>iter_chars = cs, iter_offset = n\<rparr> = int (column cs n)"
  by (simp add: gtk_text_iter_get_line_offset_def seek_line_ends column_def line_start_def)

lemma to_int_id: "- 2147483648 \<le> k \<Longrightarrow> k < 2147483648 \<Longrightarrow> to_int k = k"
  by (simp add: to_int_def)

lemma seek_bounds: "fst (seek cs n (l, c)) \<le> l + n \<and> snd (seek cs n (l, c)) \<le> c + n"
  by (induction cs n "(l, c)" arbitrary: l c rule: seek.induct) (auto simp add: le_Suc_eq)

lemma line_number_le: "n \<le> length cs \<Longrightarrow> line_number cs n \<le> n"
  using seek_bounds [of cs n 0 0] by (simp add: seek_line_ends line_number_def)

lemma column_le: "column cs n \<le> n"
  by (simp add: column_def)

lemma printf_d_succ:
  "int n < 2147483647 \<Longrightarrow> printf_d (int_add (int n) 1) = decimal (n + 1)"
proof -
  assume b: "int n < 2147483647"
  then have "int_add (int n) 1 = int n + 1" by (simp add: int_add_def to_int_id)
  moreover have "nat (int n + 1) = n + 1" by simp
  ultimately show ?thesis by (simp add: printf_d_def)
qed

lemma update_cursor_label:
  assumes "0 \<le> cursor_position (main_text_view (window p))"
    and "cursor_position (main_text_view (window p))
           \<le> int (length (chars (main_text_view (window p))))"
    and "cursor_position (main_text_view (window p)) < 2147483647"
  shows "cursor_pos (window (text_view_window__update_cursor_postion p)) =
     ''Ln '' @ decimal (line_number (chars (main_text_view (window p)))
                  (nat (cursor_position (main_text_view (window p)))) + 1)
     @ '', Col '' @ decimal (column (chars (main_text_view (window p)))
                  (nat (cursor_position (main_text_view (window p)))) + 1)"
proof -
  define cs where "cs = chars (main_text_view (window p))"
  define n where "n = nat (cursor_position (main_text_view (window p)))"
  have n: "n \<le> length cs" using assms by (simp add: n_def cs_def)
  have small: "int n < 2147483647" using assms by (simp add: n_def)
  have l: "int (line_number cs n) < 2147483647" using line_number_le [OF n] small by simp
  have c: "int (column cs n) < 2147483647" using column_le [of cs n] small by simp
  have iter: "gtk_text_buffer_get_iter_at_offset (main_text_view (window p))
      (cursor_position (main_text_view (window p))) = \<lparr>iter_chars = cs, iter_offset = n\<rparr>"
    using assms by (simp add: gtk_text_buffer_get_iter_at_offset_def cs_def n_def)
  show ?thesis
    unfolding text_view_window__update_cursor_postion_def gtk_text_view_get_buffer_def Let_def
      iter get_line_spec [OF n] get_line_offset_spec [OF n]
      printf_d_succ [OF l] printf_d_succ [OF c]
    by (simp add: gtk_label_set_text_def cs_def n_def)
qed

lemma two_lines_ends: "line_ends [97, 98, 13, 10, 99, 100] = [4]"
  by (simp add: line_ends_def ends_line_def upt_rec [of 0] upt_rec [of 1] upt_rec [of 2]
      upt_rec [of 3] upt_rec [of 4] upt_rec [of 5] upt_rec [of 6])

lemma update_cursor_two_lines:
  "cursor_pos (window (text_view_window__update_cursor_postion two_lines)) = ''Ln 2, Col 2''"
proof -
  have a: "0 \<le> cursor_position (main_text_view (window two_lines))"
    by (simp add: two_lines_def)
  have b: "cursor_position (main_text_view (window two_lines))
       \<le> int (length (chars (main_text_view (window two_lines))))"
    by (simp add: two_lines_def)
  have c: "cursor_position (main_text_view (window two_lines)) < 2147483647"
    by (simp add: two_lines_def)
  show ?thesis
    unfolding update_cursor_label [OF a b c]
    by (simp add: two_lines_def line_number_def column_def line_start_def two_lines_ends
        decimal.simps digit_char_def)
qed


lemma printf_d_1: "printf_d (int_add 0 1) = ''1''"
  by (simp add: int_add_def to_int_def printf_d_def decimal.simps digit_char_def)



subsection \<open>The effect of the callback of the read\<close>

lemma seek_0: "seek cs 0 lc = lc"
  by (cases lc) simp

lemma update_cursor_at_start:
  "cursor_position (main_text_view (window p)) = 0 \<Longrightarrow>
   text_view_window__update_cursor_postion p = p\<lparr>window := (window p)\<lparr>cursor_pos := ''Ln 1, Col 1''\<rparr>\<rparr>"
  by (simp add: text_view_window__update_cursor_postion_def gtk_text_view_get_buffer_def
      gtk_text_buffer_get_iter_at_offset_def gtk_text_iter_get_line_def
      gtk_text_iter_get_line_offset_def gtk_label_set_text_def seek_0 printf_d_1 Let_def)

lemma update_cursor_frame:
  "stderr (text_view_window__update_cursor_postion p) = stderr p"
  "loading (text_view_window__update_cursor_postion p) = loading p"
  "title (window (text_view_window__update_cursor_postion p)) = title (window p)"
  "main_text_view (window (text_view_window__update_cursor_postion p)) = main_text_view (window p)"
  by (simp_all add: text_view_window__update_cursor_postion_def gtk_label_set_text_def Let_def)

lemma set_text_frame:
  "stderr (gtk_text_buffer_set_text txt len p) = stderr p"
  "loading (gtk_text_buffer_set_text txt len p) = loading p"
  "title (window (gtk_text_buffer_set_text txt len p)) = title (window p)"
  by (simp_all add: gtk_text_buffer_set_text_def notify_cursor_position_def update_cursor_frame
      put_buffer_def Let_def split: option.splits)

text \<open>What \<open>gtk_text_buffer_set_text\<close> leaves in the buffer depends on its arguments only.\<close>

lemma set_text_chars_eq:
  "chars (main_text_view (window (gtk_text_buffer_set_text (Some bytes) len p)))
   = (let n = (if len < 0 then to_int (int (strlen bytes)) else len)
      in if 0 < n \<and> g_utf8_validate (Some bytes) (nat n) = Inr True
         then (case utf8_decode (take (nat n) bytes) of None \<Rightarrow> [] | Some cs \<Rightarrow> cs)
         else [])"
  by (simp add: gtk_text_buffer_set_text_def notify_cursor_position_def update_cursor_frame
      put_buffer_def Let_def split: option.splits)

lemma set_text_chars:
  assumes "utf8_decode bytes = Some cs" and "fast_validate_len bytes"
    and "length bytes < 2147483648"
  shows "chars (main_text_view (window
           (gtk_text_buffer_set_text (Some bytes) (to_int (int (length bytes))) p))) = cs"
proof -
  have n: "to_int (int (length bytes)) = int (length bytes)"
    using assms(3) by (simp add: to_int_id)
  show ?thesis
    unfolding n
  proof (cases bytes)
    case Nil
    with assms(1) show "chars (main_text_view (window
           (gtk_text_buffer_set_text (Some bytes) (int (length bytes)) p))) = cs"
      by (simp add: gtk_text_buffer_set_text_def notify_cursor_position_def
          update_cursor_frame put_buffer_def Let_def)
  next
    case (Cons b bs)
    then have "0 < int (length bytes)" "\<not> int (length bytes) < 0" by simp_all
    with assms(1,2) show "chars (main_text_view (window
           (gtk_text_buffer_set_text (Some bytes) (int (length bytes)) p))) = cs"
      by (simp add: gtk_text_buffer_set_text_def g_utf8_validate_def
          notify_cursor_position_def update_cursor_frame put_buffer_def Let_def)
  qed
qed

lemma place_cursor_start:
  "gtk_text_buffer_place_cursor (gtk_text_buffer_get_start_iter (gtk_text_view_get_buffer p)) p
   = p\<lparr>window := (window p)\<lparr>main_text_view := (main_text_view (window p))\<lparr>cursor_position := 0\<rparr>,
        cursor_pos := ''Ln 1, Col 1''\<rparr>\<rparr>"
  by (simp add: gtk_text_buffer_place_cursor_def gtk_text_buffer_get_start_iter_def
      notify_cursor_position_def update_cursor_at_start put_buffer_def gtk_text_view_get_buffer_def)

lemma open_file_complete_error:
  "open_file_complete file (Inl e) self =
   Inr (g_printerr (''Unable to open '' @ ldquo @ printf_s (g_file_peek_path file) @ rdquo
          @ '': '' @ message e @ newline) self)"
  by (simp add: open_file_complete_def after_load_contents_finish_def
      g_file_load_contents_finish_def printf_s_def)

lemma open_file_complete_invalid:
  "\<not> fast_validate_len bytes \<Longrightarrow>
   open_file_complete file (Inr bytes) self =
   Inr (g_printerr (''Unable to load the contents of '' @ ldquo
          @ printf_s (g_file_peek_path file) @ rdquo
          @ '': the file is not encoded with UTF-8'' @ newline) self)"
  by (simp add: open_file_complete_def after_load_contents_finish_def
      g_file_load_contents_finish_def g_utf8_validate_def)

text \<open>
  A validated load: the title is set, the cursor is at the start, and the text is what
  \<open>gtk_text_buffer_set_text\<close> has made of the bytes and of the length narrowed to int.
\<close>

lemma open_file_complete_accepted:
  assumes "fast_validate_len bytes"
  shows "open_file_complete file (Inr bytes) self =
   Inr (self\<lparr>window :=
          \<lparr>title = display_name file,
           main_text_view =
             \<lparr>chars = chars (main_text_view (window
                  (gtk_text_buffer_set_text (Some bytes) (to_int (int (length bytes))) self))),
              cursor_position = 0\<rparr>,
           cursor_pos = ''Ln 1, Col 1''\<rparr>\<rparr>)"
proof -
  define s1 where "s1 = gtk_text_buffer_set_text (Some bytes) (to_int (int (length bytes))) self"
  have f: "stderr s1 = stderr self" "loading s1 = loading self"
    unfolding s1_def by (simp_all add: set_text_frame)
  have "open_file_complete file (Inr bytes) self =
      Inr (gtk_window_set_title (display_name file)
        (gtk_text_buffer_place_cursor
          (gtk_text_buffer_get_start_iter (gtk_text_view_get_buffer s1)) s1))"
    using assms
    by (simp add: open_file_complete_def after_load_contents_finish_def
        g_file_load_contents_finish_def g_utf8_validate_def s1_def Let_def)
  also have "\<dots> = Inr (self\<lparr>window :=
          \<lparr>title = display_name file,
           main_text_view = \<lparr>chars = chars (main_text_view (window s1)), cursor_position = 0\<rparr>,
           cursor_pos = ''Ln 1, Col 1''\<rparr>\<rparr>)"
    using f by (simp add: place_cursor_start gtk_window_set_title_def)
  finally show ?thesis by (simp add: s1_def)
qed

lemma open_file_complete_valid:
  assumes "fast_validate_len bytes" and "utf8_decode bytes = Some cs"
    and "length bytes < 2147483648"
  shows "open_file_complete file (Inr bytes) self =
   Inr (self\<lparr>window :=
          \<lparr>title = display_name file,
           main_text_view = \<lparr>chars = cs, cursor_position = 0\<rparr>,
           cursor_pos = ''Ln 1, Col 1''\<rparr>\<rparr>)"
  by (simp add: open_file_complete_accepted [OF assms(1)]
      set_text_chars [OF assms(2) assms(1) assms(3)])

lemma fast_validate_len_decodes:
  "fast_validate_len bytes \<Longrightarrow> \<exists>cs. utf8_decode bytes = Some cs"
  by (simp add: fast_validate_len_iff valid_utf8_def)

lemma open_file_complete_total: "\<exists>p'. open_file_complete file result self = Inr p'"
proof (cases result)
  case (Inl e)
  then show ?thesis by (simp add: open_file_complete_error)
next
  case (Inr bytes)
  then show ?thesis
    by (cases "fast_validate_len bytes")
      (simp_all add: open_file_complete_accepted open_file_complete_invalid)
qed

lemma open_and_select_unfold:
  "open_and_select file result p =
   open_file_complete file result (p\<lparr>loading := remove1 file (loading p @ [file])\<rparr>)"
  by (simp add: open_and_select_def load_contents_ready_def on_open_response_def
      gtk_file_dialog_open_finish_def open_file_def g_file_load_contents_async_def)

lemma nul_bytes_facts:
  "utf8_decode nul_bytes = Some [97, 0, 98]" "\<not> fast_validate_len nul_bytes"
  by (simp_all add: nul_bytes_def)

text \<open>The large files: they are valid, and the larger one has a negative int length.\<close>

lemma fast_validate_len_replicate_a: "fast_validate_len (replicate n (CHR ''a''))"
  by (induction n) simp_all

lemma utf8_decode_replicate_a: "utf8_decode (replicate n (CHR ''a'')) = Some (replicate n 97)"
  by (induction n) simp_all

lemma strlen_replicate_a: "strlen (replicate n (CHR ''a'')) = n"
  by (simp add: strlen_def takeWhile_replicate)

lemma set_text_file_of_2G:
  "gtk_text_buffer_set_text (Some file_of_2G) (to_int (int (length file_of_2G))) p =
     notify_cursor_position (put_buffer \<lparr>chars = [], cursor_position = 0\<rparr> p)"
  by (simp add: gtk_text_buffer_set_text_def file_of_2G_def strlen_replicate_a to_int_def)


text \<open>Below \<open>2^31\<close> bytes, the title and the text change together or not at all.\<close>

lemma load_below_2G_links_title_and_text:
  assumes "\<And>bytes. result = Inr bytes \<Longrightarrow> length bytes < 2147483648"
  shows "\<exists>p'. open_file_complete file result self = Inr p' \<and>
     (case result of
        Inl e \<Rightarrow> window p' = window self
      | Inr bytes \<Rightarrow>
          if fast_validate_len bytes
          then \<exists>cs. utf8_decode bytes = Some cs \<and> chars (main_text_view (window p')) = cs
                 \<and> title (window p') = display_name file
          else window p' = window self)"
proof (cases result)
  case (Inl e)
  then show ?thesis by (simp add: open_file_complete_error g_printerr_def)
next
  case (Inr bytes)
  with assms have small: "length bytes < 2147483648" by simp
  show ?thesis
  proof (cases "fast_validate_len bytes")
    case True
    then obtain cs where cs: "utf8_decode bytes = Some cs"
      using fast_validate_len_decodes by blast
    with True Inr show ?thesis
      by (simp add: open_file_complete_valid [OF True cs small])
  next
    case False
    with Inr show ?thesis by (simp add: open_file_complete_invalid g_printerr_def)
  qed
qed

section \<open>The claims\<close>




text \<open>
  C2, as stated: for every file whose read succeeds but whose bytes are not valid UTF-8,
  completing the load leaves title, text and cursor unchanged and writes exactly one
  diagnostic line of the form
  \<open>Unable to load the contents of "<path>": the file is not encoded with UTF-8\<close>.
  The line written is not of that form: the format string of the source puts the path
  between the typographic quotation marks U+201C and U+201D, not between ASCII
  quotation marks. Here for the single byte FF read from \<open>/tmp/notes.txt\<close>.
\<close>

theorem load_not_utf8_line_has_typographic_quotes:
  "\<not> valid_utf8 [CHR 0xFF]
   \<and> g_file_peek_path notes_txt = Some ''/tmp/notes.txt''
   \<and> open_file_complete notes_txt (Inr [CHR 0xFF]) fresh =
       Inr (fresh\<lparr>stderr :=
         [''Unable to load the contents of '' @ ldquo @ ''/tmp/notes.txt'' @ rdquo
            @ '': the file is not encoded with UTF-8'' @ newline]\<rparr>)
   \<and> ''Unable to load the contents of '' @ ldquo @ ''/tmp/notes.txt'' @ rdquo
            @ '': the file is not encoded with UTF-8'' @ newline
       \<noteq> spec_encoding_line ''/tmp/notes.txt'' @ newline"
  by (simp add: valid_utf8_def open_file_complete_invalid g_printerr_def printf_s_def
      g_file_peek_path_def notes_txt_def fresh_def spec_encoding_line_def ldquo_def dquote_def)

text \<open>
  C2, amended: for every file with a local path whose read succeeds but whose bytes are
  not valid UTF-8, completing the load leaves the window (title, text buffer, cursor
  position, cursor label) and the reads in flight unchanged, and writes exactly one
  diagnostic line to the standard error stream:
  \<open>Unable to load the contents of\<close>, the path between U+201C and U+201D, and
  \<open>: the file is not encoded with UTF-8\<close>.
\<close>

theorem load_not_utf8_reports_and_keeps_window:
  assumes "\<not> valid_utf8 bytes" and "g_file_peek_path file = Some path"
  shows "\<exists>p'. open_file_complete file (Inr bytes) self = Inr p'
     \<and> window p' = window self \<and> loading p' = loading self
     \<and> stderr p' = stderr self @
          [''Unable to load the contents of '' @ ldquo @ path @ rdquo
             @ '': the file is not encoded with UTF-8'' @ newline]"
proof -
  from assms(1) have "\<not> fast_validate_len bytes" by (simp add: fast_validate_len_iff)
  then show ?thesis
    using assms(2) by (simp add: open_file_complete_invalid g_printerr_def printf_s_def)
qed

theorem load_not_utf8_reports_and_keeps_window_witness:
  "\<not> valid_utf8 [CHR 0xC3, CHR ''('']
   \<and> g_file_peek_path remote_bin = Some ''/mnt/r.bin''
   \<and> (\<exists>p'. open_file_complete remote_bin (Inr [CHR 0xC3, CHR ''('']) showing_x = Inr p'
     \<and> window p' = window showing_x \<and> loading p' = loading showing_x
     \<and> stderr p' = stderr showing_x @
          [''Unable to load the contents of '' @ ldquo @ ''/mnt/r.bin'' @ rdquo
             @ '': the file is not encoded with UTF-8'' @ newline])"
proof -
  have v: "\<not> valid_utf8 [CHR 0xC3, CHR ''('']"
    by (simp add: valid_utf8_def continuation_def)
  have q: "g_file_peek_path remote_bin = Some ''/mnt/r.bin''"
    by (simp add: g_file_peek_path_def remote_bin_def)
  from load_not_utf8_reports_and_keeps_window [OF v q, of showing_x] v q
  show ?thesis by simp
qed

text \<open>
  C3, as stated: for every file whose read fails, completing the load writes one line
  of the form \<open>Unable to open "<path>": <message>\<close>, changes no UI state and raises
  nothing. The line written is not of that form, for the same reason as in C2: the
  path stands between U+201C and U+201D. Here for \<open>/tmp/notes.txt\<close>, not found.
\<close>

theorem load_read_error_line_has_typographic_quotes:
  "g_file_peek_path notes_txt = Some ''/tmp/notes.txt''
   \<and> open_file_complete notes_txt (Inl not_found) fresh =
       Inr (fresh\<lparr>stderr :=
         [''Unable to open '' @ ldquo @ ''/tmp/notes.txt'' @ rdquo
            @ '': No such file or directory'' @ newline]\<rparr>)
   \<and> ''Unable to open '' @ ldquo @ ''/tmp/notes.txt'' @ rdquo
            @ '': No such file or directory'' @ newline
       \<noteq> spec_open_line ''/tmp/notes.txt'' ''No such file or directory'' @ newline"
  by (simp add: open_file_complete_error g_printerr_def printf_s_def
      g_file_peek_path_def notes_txt_def fresh_def not_found_def spec_open_line_def
      ldquo_def dquote_def)

text \<open>
  C3, amended: for every file with a local path whose asynchronous read fails,
  completing the load writes exactly one diagnostic line to the standard error stream,
  \<open>Unable to open\<close>, the path between U+201C and U+201D, a colon and the message of
  the error; it leaves the window (title, text buffer, cursor position, cursor label)
  and the reads in flight unchanged, and it returns normally.
\<close>

theorem load_read_error_reports_and_keeps_window:
  assumes "g_file_peek_path file = Some path"
  shows "\<exists>p'. open_file_complete file (Inl e) self = Inr p'
     \<and> window p' = window self \<and> loading p' = loading self
     \<and> stderr p' = stderr self @
          [''Unable to open '' @ ldquo @ path @ rdquo @ '': '' @ message e @ newline]"
  using assms by (simp add: open_file_complete_error g_printerr_def printf_s_def)

theorem load_read_error_reports_and_keeps_window_witness:
  "g_file_peek_path remote_bin = Some ''/mnt/r.bin''
   \<and> (\<exists>p'. open_file_complete remote_bin (Inl not_found) showing_x = Inr p'
     \<and> window p' = window showing_x \<and> loading p' = loading showing_x
     \<and> stderr p' = stderr showing_x @
          [''Unable to open '' @ ldquo @ ''/mnt/r.bin'' @ rdquo @ '': ''
             @ ''No such file or directory'' @ newline])"
proof -
  have q: "g_file_peek_path remote_bin = Some ''/mnt/r.bin''"
    by (simp add: g_file_peek_path_def remote_bin_def)
  from load_read_error_reports_and_keeps_window [OF q, of not_found showing_x] q
  show ?thesis by (simp add: not_found_def)
qed


text \<open>
  C5: for every load, either the text buffer and the title are both updated (on success)
  or neither is. The code misses this for a file of \<open>2^31\<close> bytes or more: line 82
  hands the \<open>gsize\<close> length to the \<open>int\<close> parameter of \<open>gtk_text_buffer_set_text\<close>,
  where it is negative, so the old text is deleted and nothing is inserted, and line 90
  sets the title all the same. Here for \<open>2^31\<close> letters \<open>a\<close>, read from
  \<open>/mnt/r.bin\<close> into a window that shows \<open>x\<close> under the title \<open>Notes\<close>: the
  bytes are valid and decode to \<open>2^31\<close> characters, the title becomes \<open>r.bin\<close>,
  and the text buffer is empty.
\<close>

theorem load_of_2G_file_sets_title_without_text:
  "fast_validate_len file_of_2G
   \<and> utf8_decode file_of_2G = Some (replicate 2147483648 97)
   \<and> to_int (int (length file_of_2G)) = - 2147483648
   \<and> open_file_complete remote_bin (Inr file_of_2G) showing_x =
       Inr (showing_x\<lparr>window :=
              \<lparr>title = Some ''r.bin'',
               main_text_view = \<lparr>chars = [], cursor_position = 0\<rparr>,
               cursor_pos = ''Ln 1, Col 1''\<rparr>\<rparr>)
   \<and> title (window showing_x) = Some ''Notes''
   \<and> chars (main_text_view (window showing_x)) = [120]"
proof -
  have v: "fast_validate_len file_of_2G"
    by (simp add: file_of_2G_def fast_validate_len_replicate_a)
  have d: "utf8_decode file_of_2G = Some (replicate 2147483648 97)"
    by (simp add: file_of_2G_def utf8_decode_replicate_a)
  have n: "to_int (int (length file_of_2G)) = - 2147483648"
    by (simp add: file_of_2G_def to_int_def)
  have "open_file_complete remote_bin (Inr file_of_2G) showing_x =
       Inr (showing_x\<lparr>window :=
              \<lparr>title = Some ''r.bin'',
               main_text_view = \<lparr>chars = [], cursor_position = 0\<rparr>,
               cursor_pos = ''Ln 1, Col 1''\<rparr>\<rparr>)"
    unfolding open_file_complete_accepted [OF v] set_text_file_of_2G
    by (simp add: notify_cursor_position_def update_cursor_frame put_buffer_def
        display_name_def g_file_query_info_def g_file_get_basename_def remote_bin_def)
  with v d n show ?thesis by (simp add: showing_x_def)
qed

text \<open>
  C6: when the file dialog is cancelled (its result is null), the response handler
  leaves the process as it was: the window, the standard error stream and the reads in
  flight.
\<close>

theorem cancelled_dialog_changes_nothing:
  "on_open_response None self = self
   \<and> window (on_open_response None self) = window self
   \<and> stderr (on_open_response None self) = stderr self
   \<and> loading (on_open_response None self) = loading self"
  by (simp add: on_open_response_def gtk_file_dialog_open_finish_def)

theorem cancelled_dialog_changes_nothing_witness:
  "on_open_response None showing_x = showing_x
   \<and> window (on_open_response None showing_x) = window showing_x
   \<and> stderr (on_open_response None showing_x) = stderr showing_x
   \<and> loading (on_open_response None showing_x) = loading showing_x"
  by (rule cancelled_dialog_changes_nothing)

text \<open>
  C7: on a successful load (the read succeeded and \<open>g_utf8_validate\<close> accepted the
  bytes) the title is set to the \<open>standard::display-name\<close> attribute of the metadata
  when the query for it succeeded, and to the base name of the file otherwise.
\<close>

theorem title_is_display_name_attribute_or_base_name:
  assumes "fast_validate_len bytes"
  shows "\<exists>p'. open_file_complete file (Inr bytes) self = Inr p'
     \<and> title (window p') =
         (case file_info file of
            Some info \<Rightarrow> info ''standard::display-name''
          | None \<Rightarrow> base_name file)"
  by (simp add: open_file_complete_accepted [OF assms] display_name_def g_file_query_info_def
      g_file_info_get_attribute_string_def g_strdup_def g_file_get_basename_def
      split: option.splits)

theorem title_is_display_name_attribute_or_base_name_witness:
  "fast_validate_len ''hi''
   \<and> (\<exists>p'. open_file_complete notes_txt (Inr ''hi'') fresh = Inr p'
         \<and> title (window p') = Some ''Notes'')
   \<and> (\<exists>p'. open_file_complete remote_bin (Inr ''hi'') fresh = Inr p'
         \<and> title (window p') = Some ''r.bin'')"
proof -
  have v: "fast_validate_len ''hi''" by simp
  from title_is_display_name_attribute_or_base_name [OF v, of notes_txt fresh]
    title_is_display_name_attribute_or_base_name [OF v, of remote_bin fresh] v
  show ?thesis by (simp add: notes_txt_def remote_bin_def)
qed

text \<open>
  C8, as stated: for every pair of files A and B with B valid UTF-8, loading A and then
  B leaves the title, text and cursor that loading B alone leaves. It fails when B holds
  a nul byte, as in C1: with A the one byte \<open>x\<close> and B the bytes \<open>a\<close>, nul, \<open>b\<close>,
  the second load is refused, so after A and B the window still shows A (title
  \<open>Notes\<close>, text \<open>x\<close>), while after B alone it shows nothing.
\<close>

theorem second_load_with_nul_keeps_first:
  "valid_utf8 nul_bytes
   \<and> open_and_select notes_txt (Inr ''x'') fresh = Inr showing_x
   \<and> open_and_select remote_bin (Inr nul_bytes) showing_x =
       Inr (showing_x\<lparr>stderr :=
         [''Unable to load the contents of '' @ ldquo @ ''/mnt/r.bin'' @ rdquo
            @ '': the file is not encoded with UTF-8'' @ newline]\<rparr>)
   \<and> open_and_select remote_bin (Inr nul_bytes) fresh =
       Inr (fresh\<lparr>stderr :=
         [''Unable to load the contents of '' @ ldquo @ ''/mnt/r.bin'' @ rdquo
            @ '': the file is not encoded with UTF-8'' @ newline]\<rparr>)
   \<and> title (window showing_x) = Some ''Notes'' \<and> title (window fresh) = None
   \<and> chars (main_text_view (window showing_x)) = [120]
   \<and> chars (main_text_view (window fresh)) = []"
proof -
  have x: "fast_validate_len ''x''" "utf8_decode ''x'' = Some [120]"
    "length ''x'' < 2147483648" by simp_all
  have a: "open_and_select notes_txt (Inr ''x'') fresh = Inr showing_x"
    unfolding open_and_select_unfold
    by (simp add: open_file_complete_valid [OF x] fresh_def showing_x_def display_name_def
        g_file_query_info_def g_file_info_get_attribute_string_def g_strdup_def notes_txt_def)
  have b: "open_and_select remote_bin (Inr nul_bytes) showing_x =
       Inr (showing_x\<lparr>stderr :=
         [''Unable to load the contents of '' @ ldquo @ ''/mnt/r.bin'' @ rdquo
            @ '': the file is not encoded with UTF-8'' @ newline]\<rparr>)"
    unfolding open_and_select_unfold
    by (simp add: open_file_complete_invalid nul_bytes_facts g_printerr_def printf_s_def
        g_file_peek_path_def remote_bin_def showing_x_def)
  have c: "open_and_select remote_bin (Inr nul_bytes) fresh =
       Inr (fresh\<lparr>stderr :=
         [''Unable to load the contents of '' @ ldquo @ ''/mnt/r.bin'' @ rdquo
            @ '': the file is not encoded with UTF-8'' @ newline]\<rparr>)"
    unfolding open_and_select_unfold
    by (simp add: open_file_complete_invalid nul_bytes_facts g_printerr_def printf_s_def
        g_file_peek_path_def remote_bin_def fresh_def)
  have d: "valid_utf8 nul_bytes" by (simp add: valid_utf8_def nul_bytes_facts)
  from a b c d show ?thesis by (simp add: showing_x_def fresh_def)
qed

text \<open>
  C8, amended: for every pair of files A and B with B valid UTF-8 with no nul byte, if
  the load of A completes (whatever its outcome) before the load of B starts, then both
  loads return normally, and the title, the text and the cursor position after them are
  those after loading B alone from the same state.
\<close>

theorem second_load_overwrites_first:
  assumes "valid_utf8 bytes_b" and "CHR 0x00 \<notin> set bytes_b"
  shows "\<exists>p1 p2 p3. open_and_select file_a result_a p = Inr p1
     \<and> open_and_select file_b (Inr bytes_b) p1 = Inr p2
     \<and> open_and_select file_b (Inr bytes_b) p = Inr p3
     \<and> title (window p2) = title (window p3)
     \<and> chars (main_text_view (window p2)) = chars (main_text_view (window p3))
     \<and> cursor_position (main_text_view (window p2))
         = cursor_position (main_text_view (window p3))"
proof -
  from assms have v: "fast_validate_len bytes_b" by (simp add: fast_validate_len_iff)
  obtain p1 where p1: "open_and_select file_a result_a p = Inr p1"
    unfolding open_and_select_unfold using open_file_complete_total by blast
  show ?thesis
    unfolding p1
    by (simp add: open_and_select_unfold open_file_complete_accepted [OF v] set_text_chars_eq)
qed

theorem second_load_overwrites_first_witness:
  "valid_utf8 ''x'' \<and> CHR 0x00 \<notin> set ''x''
   \<and> (\<exists>p1 p2 p3. open_and_select remote_bin (Inr ''hi'') fresh = Inr p1
     \<and> open_and_select notes_txt (Inr ''x'') p1 = Inr p2
     \<and> open_and_select notes_txt (Inr ''x'') fresh = Inr p3
     \<and> title (window p2) = title (window p3)
     \<and> chars (main_text_view (window p2)) = chars (main_text_view (window p3))
     \<and> cursor_position (main_text_view (window p2))
         = cursor_position (main_text_view (window p3)))"
proof -
  have v: "valid_utf8 ''x''" by (simp add: valid_utf8_def)
  have n: "CHR 0x00 \<notin> set ''x''" by simp
  from second_load_overwrites_first [OF v n, of remote_bin "Inr ''hi''" fresh notes_txt] v n
  show ?thesis by blast
qed

text \<open>
  C9: in the callback of the read, (1) when the error is set, the outcome is the
  diagnostic alone, whatever the contents pointer and the length are, so the contents
  are not touched; (2) when \<open>g_file_load_contents_finish\<close> leaves the error unset,
  the read has succeeded, the contents pointer is the buffer read, and
  \<open>g_utf8_validate\<close> answers without reading a null pointer; (3) the callback never
  ends in such a read.
\<close>

theorem validation_only_after_successful_read:
  "(\<forall>contents len. after_load_contents_finish (contents, len, Some e) file self =
        Inr (g_printerr (''Unable to open '' @ ldquo @ printf_s (g_file_peek_path file) @ rdquo
               @ '': '' @ message e @ newline) self))
   \<and> (g_file_load_contents_finish file result = (contents, len, None) \<longrightarrow>
        (\<exists>bytes. result = Inr bytes \<and> contents = Some bytes \<and> len = length bytes
           \<and> g_utf8_validate contents len = Inr (fast_validate_len bytes)))
   \<and> (\<exists>p'. open_file_complete file result self = Inr p')"
proof (intro conjI allI impI)
  fix c l
  show "after_load_contents_finish (c, l, Some e) file self =
        Inr (g_printerr (''Unable to open '' @ ldquo @ printf_s (g_file_peek_path file) @ rdquo
               @ '': '' @ message e @ newline) self)"
    by (simp add: after_load_contents_finish_def printf_s_def)
next
  assume "g_file_load_contents_finish file result = (contents, len, None)"
  then show "\<exists>bytes. result = Inr bytes \<and> contents = Some bytes \<and> len = length bytes
           \<and> g_utf8_validate contents len = Inr (fast_validate_len bytes)"
    by (cases result) (auto simp add: g_file_load_contents_finish_def g_utf8_validate_def)
next
  show "\<exists>p'. open_file_complete file result self = Inr p'"
    by (rule open_file_complete_total)
qed

theorem validation_only_after_successful_read_witness:
  "g_file_load_contents_finish notes_txt (Inr ''hi'') = (Some ''hi'', 2, None)
   \<and> g_utf8_validate (Some ''hi'') 2 = Inr True
   \<and> g_utf8_validate None 2 = Inl NullPointerRead
   \<and> after_load_contents_finish (None, 2, Some not_found) notes_txt fresh =
        Inr (fresh\<lparr>stderr := [''Unable to open '' @ ldquo @ ''/tmp/notes.txt'' @ rdquo
               @ '': No such file or directory'' @ newline]\<rparr>)
   \<and> (\<exists>p'. open_file_complete notes_txt (Inr ''hi'') fresh = Inr p')"
proof -
  have f: "g_file_load_contents_finish notes_txt (Inr ''hi'') = (Some ''hi'', 2, None)"
    by (simp add: g_file_load_contents_finish_def)
  from validation_only_after_successful_read
    [of not_found notes_txt fresh "Inr ''hi''" "Some ''hi''" 2] f
  show ?thesis
    by (simp add: g_utf8_validate_def g_printerr_def printf_s_def g_file_peek_path_def
        notes_txt_def fresh_def not_found_def)
qed



end
